theory Spec2Isabelle
  imports Main
begin

section \<open>Conventions\<close>

text \<open>
  The Go sources are embedded function by function. A Go \<^verbatim>\<open>string\<close> and a \<^verbatim>\<open>[]byte\<close> are a
  \<^typ>\<open>string\<close> (a list of bytes). A Go map that the code compares with \<^verbatim>\<open>nil\<close> is an
  optional partial function: \<open>None\<close> is the nil map, \<open>Some m\<close> an allocated one. A value of
  type \<^verbatim>\<open>error\<close> is an optional error: \<open>None\<close> is \<^verbatim>\<open>nil\<close>. A pointer or interface value
  that the code tests against \<^verbatim>\<open>nil\<close> is an option; one that the code dereferences without
  a test (\<^verbatim>\<open>*c.IsEnabled\<close>, \<^verbatim>\<open>c.Controller\<close>, \<^verbatim>\<open>resp.StatusCode\<close>) is the value referred to.
  Collaborators that live outside the repository (the controller manager, the Kubernetes
  client, the Kong admin client) are parameters: records of the operations the code calls.
  Every call of an operation that a property counts is appended to a log that the embedded
  function returns next to its Go result.
\<close>

section \<open>Controller enablement: \<^verbatim>\<open>railgun/manager/manager.go\<close>\<close>

text \<open>
  Modelled from the spec: the declaration of \<^verbatim>\<open>util.EnablementStatus\<close> (package
  \<^verbatim>\<open>pkg/util\<close>) is not among the sources. The spec gives the three values of the
  enumeration: Enabled, Disabled, Auto.
\<close>

datatype EnablementStatus =
    EnablementStatusEnabled
  | EnablementStatusDisabled
  | EnablementStatusAuto

text \<open>
  \<^verbatim>\<open>ctrl.Manager\<close> is an interface of controller-runtime; the code under study calls
  \<^verbatim>\<open>GetAPIReader\<close> only. Whatever else a manager holds (the controllers installed so far)
  is the extension part of the record, which \<^verbatim>\<open>SetupWithManager\<close> may change.
\<close>

record 'r Manager =
  GetAPIReader :: 'r

text \<open>
  \<^verbatim>\<open>type Controller interface { SetupWithManager(ctrl.Manager) error }\<close>. The dynamic type
  of the value, which \<^verbatim>\<open>reflect.TypeOf(c.Controller).String()\<close> prints, is the field
  \<open>TypeName\<close>.
\<close>

record ('r, 'z, 'e) Controller =
  TypeName :: string
  SetupWithManager :: "('r, 'z) Manager_scheme \<Rightarrow> 'e option \<times> ('r, 'z) Manager_scheme"

text \<open>
  \<^verbatim>\<open>type AutoHandler func(client.Reader) bool\<close>, and
  \<^verbatim>\<open>type ControllerDef struct { IsEnabled *util.EnablementStatus; AutoHandler AutoHandler; Controller Controller }\<close>.
\<close>

record ('r, 'z, 'e) ControllerDef =
  IsEnabled :: EnablementStatus
  AutoHandler :: "('r \<Rightarrow> bool) option"
  Controller :: "('r, 'z, 'e) Controller"

text \<open>
  The errors \<^verbatim>\<open>MaybeSetupWithManager\<close> returns: the one it builds itself,
  \<^verbatim>\<open>fmt.Errorf("'auto' enablement not supported for controller %q", c.Name())\<close>, kept
  with its argument, and the error of the controller, passed on as it is.
\<close>

datatype 'e setup_error =
    AutoEnablementNotSupported string
  | SetupWithManagerError 'e

datatype invocation = AutoHandlerInvoked | SetupWithManagerInvoked

text \<open>\<^verbatim>\<open>func (c *ControllerDef) Name() string\<close>.\<close>

definition ControllerDef_Name :: "('r, 'z, 'e) ControllerDef \<Rightarrow> string" where
  "ControllerDef_Name c = TypeName (Controller c)"

text \<open>The two calls that leave \<^verbatim>\<open>MaybeSetupWithManager\<close>, each logged when it is made.\<close>

definition invoke_AutoHandler ::
  "('r \<Rightarrow> bool) \<Rightarrow> ('r, 'z) Manager_scheme \<times> invocation list
     \<Rightarrow> bool \<times> ('r, 'z) Manager_scheme \<times> invocation list" where
  "invoke_AutoHandler h w =
     (case w of (mgr, log) \<Rightarrow> (h (GetAPIReader mgr), mgr, log @ [AutoHandlerInvoked]))"

definition invoke_SetupWithManager ::
  "('r, 'z, 'e) Controller \<Rightarrow> ('r, 'z) Manager_scheme \<times> invocation list
     \<Rightarrow> 'e setup_error option \<times> ('r, 'z) Manager_scheme \<times> invocation list" where
  "invoke_SetupWithManager ctl w =
     (case w of (mgr, log) \<Rightarrow>
        (case SetupWithManager ctl mgr of (err, mgr') \<Rightarrow>
           (map_option SetupWithManagerError err, mgr', log @ [SetupWithManagerInvoked])))"

text \<open>
  \<^verbatim>\<open>func (c *ControllerDef) MaybeSetupWithManager(mgr ctrl.Manager) error\<close>: the switch
  on \<^verbatim>\<open>*c.IsEnabled\<close>, whose \<^verbatim>\<open>auto\<close> case falls through to the \<^verbatim>\<open>default\<close> case.
\<close>

definition MaybeSetupWithManager ::
  "('r, 'z, 'e) ControllerDef \<Rightarrow> ('r, 'z) Manager_scheme \<times> invocation list
     \<Rightarrow> 'e setup_error option \<times> ('r, 'z) Manager_scheme \<times> invocation list" where
  "MaybeSetupWithManager c w =
     (case IsEnabled c of
        EnablementStatusDisabled \<Rightarrow> (None, w)
      | EnablementStatusAuto \<Rightarrow>
          (case AutoHandler c of
             None \<Rightarrow> (Some (AutoEnablementNotSupported (ControllerDef_Name c)), w)
           | Some h \<Rightarrow>
               (case invoke_AutoHandler h w of (enable, w') \<Rightarrow>
                  if \<not> enable then (None, w')
                  else invoke_SetupWithManager (Controller c) w'))
      | _ \<Rightarrow> invoke_SetupWithManager (Controller c) w)"

text \<open>The calls a run of \<^verbatim>\<open>MaybeSetupWithManager\<close> adds to the log.\<close>

definition invocations_of ::
  "('r, 'z, 'e) ControllerDef \<Rightarrow> ('r, 'z) Manager_scheme \<Rightarrow> invocation list \<Rightarrow> invocation list" where
  "invocations_of c mgr log =
     drop (length log) (snd (snd (MaybeSetupWithManager c (mgr, log))))"

text \<open>
  A manager whose reader answers \<open>True\<close> and which counts the controllers installed, and
  a controller whose \<^verbatim>\<open>SetupWithManager\<close> installs itself and returns nil.
\<close>

definition example_Manager :: "(bool, nat) Manager_scheme" where
  "example_Manager = \<lparr>GetAPIReader = True, \<dots> = 0\<rparr>"

definition example_Controller :: "(bool, nat, string) Controller" where
  "example_Controller =
     \<lparr>TypeName = ''*corev1.CoreV1ServiceReconciler'',
      SetupWithManager = (\<lambda>mgr. (None, mgr\<lparr>Manager.more := Suc (Manager.more mgr)\<rparr>))\<rparr>"

definition example_ControllerDef ::
  "EnablementStatus \<Rightarrow> (bool \<Rightarrow> bool) option \<Rightarrow> (bool, nat, string) ControllerDef" where
  "example_ControllerDef status handler =
     \<lparr>IsEnabled = status, AutoHandler = handler, Controller = example_Controller\<rparr>"

section \<open>Errors and secrets, shared by the packages\<close>

text \<open>
  Errors of the collaborators. An error value is known by the text its \<^verbatim>\<open>Error\<close> method
  returns and by whether the library's not-found test accepts it
  (\<^verbatim>\<open>errors.IsNotFound\<close> of apimachinery, \<^verbatim>\<open>kong.IsNotFoundErr\<close> of go-kong).
  \<open>Errorf_w\<close> is \<^verbatim>\<open>fmt.Errorf(prefix + "%w", err)\<close>.
\<close>

datatype error =
    ErrorText string
  | NotFoundError string
  | Errorf_w string error

fun Error :: "error \<Rightarrow> string" where
  "Error (ErrorText m) = m"
| "Error (NotFoundError m) = m"
| "Error (Errorf_w prefix e) = prefix @ Error e"

fun IsNotFound :: "error \<Rightarrow> bool" where
  "IsNotFound (NotFoundError m) = True"
| "IsNotFound e = False"

text \<open>
  \<^verbatim>\<open>corev1.Secret\<close>, with the fields the code reads or writes: the name and namespace of
  its metadata and \<^verbatim>\<open>Data map[string][]byte\<close>. \<^verbatim>\<open>new(corev1.Secret)\<close> is the zero value.
\<close>

record Secret =
  SecretName :: string
  SecretNamespace :: string
  Data :: "(string \<rightharpoonup> string) option"

definition new_Secret :: Secret where
  "new_Secret = \<lparr>SecretName = [], SecretNamespace = [], Data = None\<rparr>"

section \<open>The configuration secret: \<^verbatim>\<open>getOrCreateConfigSecret\<close>\<close>

text \<open>\<^verbatim>\<open>types.NamespacedName\<close>.\<close>

record NamespacedName =
  Namespace :: string
  Name :: string

text \<open>
  \<^verbatim>\<open>client.Client\<close> of controller-runtime, over a cluster state \<open>'s\<close>. \<^verbatim>\<open>Get\<close> and
  \<^verbatim>\<open>Create\<close> receive a pointer to the object and may write to it: they return the object
  as they leave it. \<^verbatim>\<open>Create\<close> also changes the cluster.
\<close>

record 's Client =
  Get :: "'s \<Rightarrow> NamespacedName \<Rightarrow> Secret \<Rightarrow> error option \<times> Secret"
  Create :: "'s \<Rightarrow> Secret \<Rightarrow> error option \<times> Secret \<times> 's"

text \<open>
  \<^verbatim>\<open>func getOrCreateConfigSecret(ctx, c, targetNsn) (*corev1.Secret, bool, error)\<close>.
  The result is the Go triple and the cluster state after the call.
\<close>

definition getOrCreateConfigSecret ::
  "'s Client \<Rightarrow> 's \<Rightarrow> NamespacedName \<Rightarrow> (Secret option \<times> bool \<times> error option) \<times> 's" where
  "getOrCreateConfigSecret c s targetNsn =
     (let secret = new_Secret in
      case Get c s targetNsn secret of
        (Some err, secret) \<Rightarrow>
          if IsNotFound err then
            (let secret = secret\<lparr>SecretName := Name targetNsn\<rparr>;
                 secret = secret\<lparr>SecretNamespace := Namespace targetNsn\<rparr>
             in case Create c s secret of
                  (Some err, secret, s') \<Rightarrow> ((None, False, Some err), s')
                | (None, secret, s') \<Rightarrow> ((Some secret, True, None), s'))
          else ((None, False, Some err), s)
      | (None, secret) \<Rightarrow>
          (let secret = (if Data secret = None then secret\<lparr>Data := Some Map.empty\<rparr> else secret)
           in ((Some secret, False, None), s)))"

text \<open>
  A client over an in-memory cluster, the behaviour of the API server on the two calls:
  \<^verbatim>\<open>Get\<close> of a missing name fails with a not-found error and leaves the object alone;
  \<^verbatim>\<open>Create\<close> of a new name stores the object as submitted and leaves it as submitted.
\<close>

type_synonym cluster = "(string \<times> string) \<rightharpoonup> Secret"

definition cluster_Client :: "cluster Client" where
  "cluster_Client =
     \<lparr>Get = (\<lambda>s nsn obj.
         case s (Namespace nsn, Name nsn) of
           None \<Rightarrow> (Some (NotFoundError ''not found''), obj)
         | Some stored \<Rightarrow> (None, stored)),
      Create = (\<lambda>s obj.
         case s (SecretNamespace obj, SecretName obj) of
           Some stored \<Rightarrow> (Some (ErrorText ''already exists''), obj, s)
         | None \<Rightarrow> (None, obj, s((SecretNamespace obj, SecretName obj) \<mapsto> obj)))\<rparr>"

definition kong_config :: NamespacedName where
  "kong_config = \<lparr>Namespace = ''default'', Name = ''kong-config''\<rparr>"

section \<open>Admission validation: package \<^verbatim>\<open>admission\<close>\<close>

subsection \<open>Data\<close>

text \<open>\<^verbatim>\<open>configurationv1.KongConsumer\<close>: the validator reads \<^verbatim>\<open>Username\<close> only.\<close>

record KongConsumer =
  Username :: string

text \<open>
  \<^verbatim>\<open>kong.Configuration\<close> is \<^verbatim>\<open>map[string]interface{}\<close>; the validator takes its \<^verbatim>\<open>len\<close>
  only. It is a list of entries with distinct keys, each value its JSON text.
\<close>

type_synonym Configuration = "(string \<times> string) list"

text \<open>
  \<^verbatim>\<open>configurationv1.KongPlugin\<close>, with the fields the validator reads. The type of
  \<^verbatim>\<open>Config\<close> is declared outside the sources: it is the parameter \<open>'raw\<close>.
  Modelled from the spec: \<^verbatim>\<open>ConfigFrom.SecretValue\<close>, of a struct type declared outside
  the sources, is the spec's optional reference \<open>configFromSecretRef\<close>; \<open>None\<close> is the
  zero value \<^verbatim>\<open>SecretValueFromSource{}\<close> that the code compares it with.
\<close>

record ('raw, 'ref) KongPlugin =
  KongPlugin_Namespace :: string
  PluginName :: string
  Config :: 'raw
  ConfigFrom_SecretValue :: "'ref option"
  RunOn :: string
  Protocols :: "string list"

text \<open>\<^verbatim>\<open>kong.Plugin\<close>, the descriptor submitted to Kong, with the fields the validator sets.\<close>

record Plugin =
  Plugin_Name :: "string option"
  Plugin_Config :: Configuration
  Plugin_RunOn :: "string option"
  Plugin_Protocols :: "string list"

definition new_Plugin :: Plugin where
  "new_Plugin = \<lparr>Plugin_Name = None, Plugin_Config = [], Plugin_RunOn = None, Plugin_Protocols = []\<rparr>"

text \<open>\<^verbatim>\<open>kong.Response\<close>: the validator reads \<^verbatim>\<open>StatusCode\<close> only.\<close>

record Response =
  StatusCode :: int

text \<open>
  \<^verbatim>\<open>*kong.Client\<close> of go-kong: \<^verbatim>\<open>Consumers.Get\<close> returns an error or a consumer pointer
  that may be nil; \<^verbatim>\<open>NewRequest\<close> builds a request without sending it; \<^verbatim>\<open>Do\<close> sends it
  and returns an error or the response.
  The library is not among the sources. Its \<^verbatim>\<open>Do\<close> fails with the error of the HTTP
  client under a prefix or with the error Kong answered, printed with its status: the
  text of such an error is never empty. A property that depends on this states it.
\<close>

record ('req, 'consumer) kong_Client =
  Consumers_Get :: "string \<Rightarrow> error + 'consumer option"
  NewRequest :: "string \<Rightarrow> string \<Rightarrow> Plugin \<Rightarrow> error + 'req"
  Do :: "'req \<Rightarrow> error + Response"

text \<open>
  \<^verbatim>\<open>type KongHTTPValidator struct { Client *kong.Client; Logger logrus.FieldLogger; Store store.Storer }\<close>.
  What the logger prints is not modelled.
\<close>

record ('req, 'consumer, 'store) KongHTTPValidator =
  Client :: "('req, 'consumer) kong_Client"
  Store :: 'store

text \<open>
  The two functions of package \<^verbatim>\<open>kongstate\<close> that \<^verbatim>\<open>ValidatePlugin\<close> calls. The package
  is not among the sources: they are parameters. \<^verbatim>\<open>SecretToConfiguration\<close> reads the
  store, not Kong.
\<close>

record ('raw, 'ref, 'store) kongstate =
  RawConfigToConfiguration :: "'raw \<Rightarrow> error + Configuration"
  SecretToConfiguration :: "'store \<Rightarrow> 'ref \<Rightarrow> string \<Rightarrow> error + Configuration"

text \<open>The requests a validation sends to Kong, in the order sent.\<close>

datatype 'req remote_call =
    Consumers_Get_call string
  | Do_call 'req

text \<open>The Go result \<^verbatim>\<open>(bool, string, error)\<close> of the three operations.\<close>

type_synonym outcome = "bool \<times> string \<times> error option"

definition IsNotFoundErr :: "error \<Rightarrow> bool" where
  "IsNotFoundErr e = IsNotFound e"

subsection \<open>\<^verbatim>\<open>ValidateConsumer\<close>\<close>

definition ValidateConsumer ::
  "('req, 'consumer, 'store) KongHTTPValidator \<Rightarrow> KongConsumer \<Rightarrow> outcome \<times> 'req remote_call list" where
  "ValidateConsumer validator consumer =
     (if Username consumer = [] then ((False, ''username cannot be empty'', None), [])
      else
        (let sent = [Consumers_Get_call (Username consumer)] in
         case Consumers_Get (Client validator) (Username consumer) of
           Inl err \<Rightarrow>
             if IsNotFoundErr err then ((True, [], None), sent)
             else ((False, [], Some (Errorf_w ''fetching consumer from Kong: '' err)), sent)
         | Inr c \<Rightarrow>
             if c \<noteq> None then ((False, ''consumer already exists'', None), sent)
             else ((True, [], None), sent)))"

subsection \<open>\<^verbatim>\<open>ValidatePlugin\<close>\<close>

text \<open>
  The function returns early at each failed step; the request is sent by \<^verbatim>\<open>Do\<close> only.
  After \<^verbatim>\<open>Do\<close> has returned without error, \<^verbatim>\<open>err\<close> is nil: the second test of
  \<^verbatim>\<open>err\<close>, after the test of the status code, is kept as the source has it.
\<close>

definition ValidatePlugin ::
  "('raw, 'ref, 'store) kongstate \<Rightarrow> ('req, 'consumer, 'store) KongHTTPValidator
     \<Rightarrow> ('raw, 'ref) KongPlugin \<Rightarrow> outcome \<times> 'req remote_call list" where
  "ValidatePlugin ks validator k8sPlugin =
     (if PluginName k8sPlugin = [] then ((False, ''plugin name cannot be empty'', None), [])
      else
        (let plugin = new_Plugin\<lparr>Plugin_Name := Some (PluginName k8sPlugin)\<rparr> in
         case RawConfigToConfiguration ks (Config k8sPlugin) of
           Inl err \<Rightarrow> ((False, ''could not parse plugin configuration'', Some err), [])
         | Inr config \<Rightarrow>
            (let plugin = plugin\<lparr>Plugin_Config := config\<rparr> in
             case
               (case ConfigFrom_SecretValue k8sPlugin of
                  None \<Rightarrow> Inr plugin
                | Some secretValue \<Rightarrow>
                    if length (Plugin_Config plugin) > 0 then
                      Inl (False, ''plugin cannot use both Config and ConfigFrom'', None)
                    else
                      (case SecretToConfiguration ks (Store validator) secretValue
                              (KongPlugin_Namespace k8sPlugin) of
                         Inl err \<Rightarrow> Inl (False, ''could not load secret plugin configuration'', Some err)
                       | Inr config \<Rightarrow> Inr (plugin\<lparr>Plugin_Config := config\<rparr>)))
             of
               Inl returned \<Rightarrow> (returned, [])
             | Inr plugin \<Rightarrow>
                (let plugin = (if RunOn k8sPlugin \<noteq> [] then plugin\<lparr>Plugin_RunOn := Some (RunOn k8sPlugin)\<rparr>
                               else plugin);
                     plugin = (if length (Protocols k8sPlugin) > 0
                               then plugin\<lparr>Plugin_Protocols := Protocols k8sPlugin\<rparr>
                               else plugin)
                 in case NewRequest (Client validator) ''POST'' ''/schemas/plugins/validate'' plugin of
                      Inl err \<Rightarrow> ((False, [], Some err), [])
                    | Inr req \<Rightarrow>
                       (case Do (Client validator) req of
                          Inl err \<Rightarrow> ((False, Error err, None), [Do_call req])
                        | Inr resp \<Rightarrow>
                           (let err = (None :: error option) in
                            if StatusCode resp = 201 then ((True, [], None), [Do_call req])
                            else if err \<noteq> None then ((False, [], err), [Do_call req])
                            else ((True, [], None), [Do_call req])))))))"

subsection \<open>\<^verbatim>\<open>ValidateCredential\<close> and the required fields\<close>

definition keyAuthFields :: "string list" where
  "keyAuthFields = [''key'']"

definition basicAuthFields :: "string list" where
  "basicAuthFields = [''username'', ''password'']"

definition hmacAuthFields :: "string list" where
  "hmacAuthFields = [''username'', ''secret'']"

definition jwtAuthFields :: "string list" where
  "jwtAuthFields = [''algorithm'', ''rsa_public_key'', ''key'', ''secret'']"

definition mtlsAuthFields :: "string list" where
  "mtlsAuthFields = [''subject_name'']"

definition credTypeToFields :: "string \<rightharpoonup> string list" where
  "credTypeToFields = map_of
     [(''key-auth'', keyAuthFields),
      (''keyauth_credential'', keyAuthFields),
      (''basic-auth'', basicAuthFields),
      (''basicauth_credential'', basicAuthFields),
      (''hmac-auth'', hmacAuthFields),
      (''hmacauth_credential'', hmacAuthFields),
      (''jwt'', jwtAuthFields),
      (''jwt_secret'', jwtAuthFields),
      (''oauth2'', [''name'', ''client_id'', ''client_secret'', ''redirect_uris'']),
      (''acl'', [''group'']),
      (''mtls-auth'', mtlsAuthFields)]"

text \<open>Indexing a Go map: a nil map has no key.\<close>

definition map_index :: "('k \<rightharpoonup> 'v) option \<Rightarrow> 'k \<Rightarrow> 'v option" where
  "map_index m k = (case m of None \<Rightarrow> None | Some f \<Rightarrow> f k)"

text \<open>\<^verbatim>\<open>strings.Join(elems, sep)\<close>.\<close>

fun Join :: "string list \<Rightarrow> string \<Rightarrow> string" where
  "Join [] sep = []"
| "Join [x] sep = x"
| "Join (x # y # ys) sep = x @ sep @ Join (y # ys) sep"

text \<open>
  The loop \<^verbatim>\<open>for _, field := range fields\<close> of \<^verbatim>\<open>ValidateCredential\<close>, which appends
  each field that is not a key of \<^verbatim>\<open>secret.Data\<close> to \<^verbatim>\<open>missingFields\<close>. (The slice
  \<^verbatim>\<open>fields\<close> of the source is \<open>required\<close> here.)
\<close>

fun range_fields :: "(string \<rightharpoonup> string) option \<Rightarrow> string list \<Rightarrow> string list \<Rightarrow> string list" where
  "range_fields d [] missingFields = missingFields"
| "range_fields d (field # rest) missingFields =
     range_fields d rest
       (if map_index d field = None then missingFields @ [field] else missingFields)"

definition ValidateCredential ::
  "('req, 'consumer, 'store) KongHTTPValidator \<Rightarrow> Secret \<Rightarrow> outcome \<times> 'req remote_call list" where
  "ValidateCredential validator secret =
     (case map_index (Data secret) ''kongCredType'' of
        None \<Rightarrow> ((True, [], None), [])
      | Some credTypeBytes \<Rightarrow>
         (let credType = credTypeBytes in
          case credTypeToFields credType of
            None \<Rightarrow> ((False, ''invalid credential type: '' @ credType, None), [])
          | Some required \<Rightarrow>
             (let missingFields = range_fields (Data secret) required [] in
              if length missingFields \<noteq> 0 then
                ((False, ''missing required field(s): '' @ Join missingFields '', '', None), [])
              else ((True, [], None), []))))"

subsection \<open>The result invariant\<close>


text \<open>
  What a run of \<^verbatim>\<open>ValidatePlugin\<close> can be: nothing was sent and the plugin is not valid,
  with a reason or with an error; or one request was sent and the outcome is read off the
  answer of \<^verbatim>\<open>Do\<close> to that request.
\<close>

definition submission_result ::
  "('req, 'consumer, 'store) KongHTTPValidator \<Rightarrow> outcome \<times> 'req remote_call list \<Rightarrow> bool" where
  "submission_result validator r \<longleftrightarrow>
     (snd r = [] \<and> \<not> fst (fst r) \<and> (snd (snd (fst r)) = None \<longrightarrow> fst (snd (fst r)) \<noteq> []))
     \<or> (\<exists>req. snd r = [Do_call req]
           \<and> fst r = (case Do (Client validator) req of
                        Inl e \<Rightarrow> (False, Error e, None)
                      | Inr resp \<Rightarrow> (True, [], None)))"

subsection \<open>Example collaborators\<close>

text \<open>
  A \<^verbatim>\<open>kongstate\<close> whose raw configuration is already decoded and whose secret lookup
  reads a key of a stored secret; a validator whose Kong client answers consumer lookups
  with \<open>lookup\<close>, builds the request as the triple of its arguments and answers every
  submission with \<open>answer\<close>; a plugin in namespace default that speaks http.
\<close>

definition example_kongstate ::
  "(Configuration, string \<times> string, (string \<times> string) \<rightharpoonup> Secret) kongstate" where
  "example_kongstate =
     \<lparr>RawConfigToConfiguration = Inr,
      SecretToConfiguration = (\<lambda>store secretValue namespace.
        case store (namespace, fst secretValue) of
          None \<Rightarrow> Inl (ErrorText ''secret not found'')
        | Some secret \<Rightarrow>
           (case map_index (Data secret) (snd secretValue) of
              None \<Rightarrow> Inl (ErrorText ''key not found'')
            | Some v \<Rightarrow> Inr [(snd secretValue, v)]))\<rparr>"

definition example_Validator ::
  "(string \<Rightarrow> error + string option) \<Rightarrow> error + Response
     \<Rightarrow> (string \<times> string \<times> Plugin, string, (string \<times> string) \<rightharpoonup> Secret) KongHTTPValidator" where
  "example_Validator lookup answer =
     \<lparr>Client = \<lparr>Consumers_Get = lookup,
                 NewRequest = (\<lambda>method path plugin. Inr (method, path, plugin)),
                 Do = (\<lambda>req. answer)\<rparr>,
      Store = Map.empty\<rparr>"

definition example_KongPlugin ::
  "string \<Rightarrow> Configuration \<Rightarrow> (string \<times> string) option
     \<Rightarrow> (Configuration, string \<times> string) KongPlugin" where
  "example_KongPlugin name config secretValue =
     \<lparr>KongPlugin_Namespace = ''default'', PluginName = name, Config = config,
      ConfigFrom_SecretValue = secretValue, RunOn = [], Protocols = [''http'']\<rparr>"

definition example_request :: "Configuration \<Rightarrow> string \<times> string \<times> Plugin" where
  "example_request config =
     (''POST'', ''/schemas/plugins/validate'',
      \<lparr>Plugin_Name = Some ''rate-limiting'', Plugin_Config = config, Plugin_RunOn = None,
       Plugin_Protocols = [''http'']\<rparr>)"

definition example_Secret :: "(string \<times> string) list \<Rightarrow> Secret" where
  "example_Secret entries =
     \<lparr>SecretName = ''credential'', SecretNamespace = ''default'', Data = Some (map_of entries)\<rparr>"

section \<open>Properties of the controller enablement\<close>

lemma MaybeSetupWithManager_log:
  "snd (snd (MaybeSetupWithManager c (mgr, log))) = log @ invocations_of c mgr log"
  by (simp add: invocations_of_def MaybeSetupWithManager_def invoke_AutoHandler_def
        invoke_SetupWithManager_def split: EnablementStatus.splits option.splits prod.splits)

text \<open>
  Claim C1. For every controller definition, \<^verbatim>\<open>MaybeSetupWithManager\<close> resolves as
  follows. When the status is Disabled it returns nil and invokes neither the AutoHandler
  nor \<^verbatim>\<open>SetupWithManager\<close>. When the status is Auto and the AutoHandler is nil it returns
  an error and does not invoke \<^verbatim>\<open>SetupWithManager\<close>. When the status is Auto and the
  AutoHandler answers false it returns nil and does not invoke \<^verbatim>\<open>SetupWithManager\<close>.
  When the status is Enabled, or Auto with an AutoHandler that answers true, it invokes
  \<^verbatim>\<open>SetupWithManager\<close> exactly once, on the manager it was given, and returns its result.
\<close>

theorem MaybeSetupWithManager_resolution:
  "(IsEnabled c = EnablementStatusDisabled \<longrightarrow>
      fst (MaybeSetupWithManager c (mgr, log)) = None
      \<and> invocations_of c mgr log = [])
   \<and> (IsEnabled c = EnablementStatusAuto \<and> AutoHandler c = None \<longrightarrow>
      fst (MaybeSetupWithManager c (mgr, log)) \<noteq> None
      \<and> count_list (invocations_of c mgr log) SetupWithManagerInvoked = 0)
   \<and> (\<forall>h. IsEnabled c = EnablementStatusAuto \<and> AutoHandler c = Some h
          \<and> \<not> h (GetAPIReader mgr) \<longrightarrow>
      fst (MaybeSetupWithManager c (mgr, log)) = None
      \<and> count_list (invocations_of c mgr log) SetupWithManagerInvoked = 0)
   \<and> (IsEnabled c = EnablementStatusEnabled
        \<or> (\<exists>h. IsEnabled c = EnablementStatusAuto \<and> AutoHandler c = Some h
               \<and> h (GetAPIReader mgr)) \<longrightarrow>
      count_list (invocations_of c mgr log) SetupWithManagerInvoked = 1
      \<and> fst (MaybeSetupWithManager c (mgr, log))
          = map_option SetupWithManagerError (fst (SetupWithManager (Controller c) mgr))
      \<and> fst (snd (MaybeSetupWithManager c (mgr, log)))
          = snd (SetupWithManager (Controller c) mgr))"
  by (auto simp add: invocations_of_def MaybeSetupWithManager_def invoke_AutoHandler_def
        invoke_SetupWithManager_def split: EnablementStatus.splits option.splits prod.splits)

theorem MaybeSetupWithManager_resolution_witness:
  "(IsEnabled (example_ControllerDef EnablementStatusDisabled None) = EnablementStatusDisabled
    \<and> invocations_of (example_ControllerDef EnablementStatusDisabled None) example_Manager [] = [])
   \<and> (IsEnabled (example_ControllerDef EnablementStatusAuto None) = EnablementStatusAuto
    \<and> AutoHandler (example_ControllerDef EnablementStatusAuto None) = None
    \<and> fst (MaybeSetupWithManager (example_ControllerDef EnablementStatusAuto None) (example_Manager, []))
        \<noteq> None)
   \<and> (AutoHandler (example_ControllerDef EnablementStatusAuto (Some Not)) = Some Not
    \<and> \<not> Not (GetAPIReader example_Manager)
    \<and> count_list (invocations_of (example_ControllerDef EnablementStatusAuto (Some Not)) example_Manager [])
         SetupWithManagerInvoked = 0)
   \<and> (AutoHandler (example_ControllerDef EnablementStatusAuto (Some id)) = Some id
    \<and> id (GetAPIReader example_Manager)
    \<and> count_list (invocations_of (example_ControllerDef EnablementStatusAuto (Some id)) example_Manager [])
         SetupWithManagerInvoked = 1)
   \<and> (IsEnabled (example_ControllerDef EnablementStatusEnabled None) = EnablementStatusEnabled
    \<and> count_list (invocations_of (example_ControllerDef EnablementStatusEnabled None) example_Manager [])
         SetupWithManagerInvoked = 1)"
  using MaybeSetupWithManager_resolution
          [of "example_ControllerDef EnablementStatusDisabled None" example_Manager "[]"]
        MaybeSetupWithManager_resolution
          [of "example_ControllerDef EnablementStatusAuto None" example_Manager "[]"]
        MaybeSetupWithManager_resolution
          [of "example_ControllerDef EnablementStatusAuto (Some Not)" example_Manager "[]"]
        MaybeSetupWithManager_resolution
          [of "example_ControllerDef EnablementStatusAuto (Some id)" example_Manager "[]"]
        MaybeSetupWithManager_resolution
          [of "example_ControllerDef EnablementStatusEnabled None" example_Manager "[]"]
  by (simp add: example_ControllerDef_def example_Manager_def)

section \<open>Properties of the configuration secret\<close>

text \<open>On the path that finds the secret, the nil map is replaced: the data is never nil.\<close>

lemma getOrCreateConfigSecret_found_Data:
  "getOrCreateConfigSecret c s nsn = ((Some secret, False, None), s') \<Longrightarrow> Data secret \<noteq> None"
  by (auto simp add: getOrCreateConfigSecret_def Let_def split: prod.splits option.splits if_splits)

text \<open>On the path that creates it, the secret returned is the object as \<^verbatim>\<open>Create\<close> left it.\<close>

lemma getOrCreateConfigSecret_created_Data:
  "getOrCreateConfigSecret c s nsn = ((Some secret, True, None), s') \<Longrightarrow>
     \<exists>e obj. Get c s nsn new_Secret = (Some e, obj) \<and> IsNotFound e \<and>
       Create c s (obj\<lparr>SecretName := Name nsn, SecretNamespace := Namespace nsn\<rparr>) = (None, secret, s')"
  by (auto simp add: getOrCreateConfigSecret_def Let_def split: prod.splits option.splits if_splits)

text \<open>
  Claim C2. Every call of \<^verbatim>\<open>getOrCreateConfigSecret\<close> that returns a nil error returns
  a secret whose \<^verbatim>\<open>Data\<close> is not nil, when the secret existed and when it was created.
  The code does not do this on the second path: on a cluster without the secret the call
  creates it, returns it with \<open>created = True\<close> and a nil error, and its \<^verbatim>\<open>Data\<close> is
  nil.
\<close>

theorem getOrCreateConfigSecret_created_nil_Data:
  "getOrCreateConfigSecret cluster_Client Map.empty kong_config =
     ((Some \<lparr>SecretName = ''kong-config'', SecretNamespace = ''default'', Data = None\<rparr>, True, None),
      [(''default'', ''kong-config'') \<mapsto>
         \<lparr>SecretName = ''kong-config'', SecretNamespace = ''default'', Data = None\<rparr>])
   \<and> Data \<lparr>SecretName = ''kong-config'', SecretNamespace = ''default'', Data = None\<rparr> = None"
  by (simp add: getOrCreateConfigSecret_def cluster_Client_def kong_config_def new_Secret_def Let_def)

section \<open>Properties of the consumer validation\<close>

text \<open>
  Claim C6. \<^verbatim>\<open>ValidateConsumer\<close> on an empty username returns invalid with the reason
  "username cannot be empty", a nil error, and sends nothing to Kong. On any other username
  it sends one lookup, by that username, and returns valid with an empty reason when the
  lookup reports not-found, invalid with the reason "consumer already exists" when the
  lookup returns a consumer, and a non-nil error with an empty reason when the lookup fails
  in another way.
\<close>

theorem ValidateConsumer_cases:
  "(Username consumer = [] \<longrightarrow>
      ValidateConsumer validator consumer = ((False, ''username cannot be empty'', None), []))
   \<and> (Username consumer \<noteq> [] \<longrightarrow>
      snd (ValidateConsumer validator consumer) = [Consumers_Get_call (Username consumer)]
      \<and> (\<forall>e. Consumers_Get (Client validator) (Username consumer) = Inl e \<and> IsNotFoundErr e \<longrightarrow>
             fst (ValidateConsumer validator consumer) = (True, [], None))
      \<and> (\<forall>found. Consumers_Get (Client validator) (Username consumer) = Inr (Some found) \<longrightarrow>
             fst (ValidateConsumer validator consumer) = (False, ''consumer already exists'', None))
      \<and> (\<forall>e. Consumers_Get (Client validator) (Username consumer) = Inl e \<and> \<not> IsNotFoundErr e \<longrightarrow>
             fst (ValidateConsumer validator consumer)
               = (False, [], Some (Errorf_w ''fetching consumer from Kong: '' e))))"
  by (simp add: ValidateConsumer_def Let_def split: sum.splits)

theorem ValidateConsumer_cases_witness:
  "ValidateConsumer (example_Validator (\<lambda>u. Inl (NotFoundError ''HTTP status 404'')) (Inr \<lparr>StatusCode = 201\<rparr>))
       \<lparr>Username = []\<rparr>
     = ((False, ''username cannot be empty'', None), [])
   \<and> ValidateConsumer (example_Validator (\<lambda>u. Inl (NotFoundError ''HTTP status 404'')) (Inr \<lparr>StatusCode = 201\<rparr>))
       \<lparr>Username = ''alice''\<rparr>
     = ((True, [], None), [Consumers_Get_call ''alice''])
   \<and> ValidateConsumer (example_Validator (\<lambda>u. Inr (Some u)) (Inr \<lparr>StatusCode = 201\<rparr>))
       \<lparr>Username = ''alice''\<rparr>
     = ((False, ''consumer already exists'', None), [Consumers_Get_call ''alice''])
   \<and> ValidateConsumer (example_Validator (\<lambda>u. Inl (ErrorText ''connection refused'')) (Inr \<lparr>StatusCode = 201\<rparr>))
       \<lparr>Username = ''alice''\<rparr>
     = ((False, [], Some (Errorf_w ''fetching consumer from Kong: '' (ErrorText ''connection refused''))),
        [Consumers_Get_call ''alice''])"
  using ValidateConsumer_cases
          [of "\<lparr>Username = []\<rparr>"
              "example_Validator (\<lambda>u. Inl (NotFoundError ''HTTP status 404'')) (Inr \<lparr>StatusCode = 201\<rparr>)"]
        ValidateConsumer_cases
          [of "\<lparr>Username = ''alice''\<rparr>"
              "example_Validator (\<lambda>u. Inl (NotFoundError ''HTTP status 404'')) (Inr \<lparr>StatusCode = 201\<rparr>)"]
        ValidateConsumer_cases
          [of "\<lparr>Username = ''alice''\<rparr>"
              "example_Validator (\<lambda>u. Inr (Some u)) (Inr \<lparr>StatusCode = 201\<rparr>)"]
        ValidateConsumer_cases
          [of "\<lparr>Username = ''alice''\<rparr>"
              "example_Validator (\<lambda>u. Inl (ErrorText ''connection refused'')) (Inr \<lparr>StatusCode = 201\<rparr>)"]
  by (simp add: example_Validator_def IsNotFoundErr_def prod_eq_iff)

section \<open>Properties of the plugin validation\<close>

lemma submission_result_sum:
  "(\<And>a. x = Inl a \<Longrightarrow> submission_result v (f a)) \<Longrightarrow>
   (\<And>b. x = Inr b \<Longrightarrow> submission_result v (g b)) \<Longrightarrow>
     submission_result v (case x of Inl a \<Rightarrow> f a | Inr b \<Rightarrow> g b)"
  by (cases x) simp_all

lemma submission_result_if:
  "(c \<Longrightarrow> submission_result v a) \<Longrightarrow> (\<not> c \<Longrightarrow> submission_result v b) \<Longrightarrow>
     submission_result v (if c then a else b)"
  by simp

lemma submission_result_returned:
  "\<not> fst returned \<Longrightarrow> (snd (snd returned) = None \<Longrightarrow> fst (snd returned) \<noteq> []) \<Longrightarrow>
     submission_result validator (returned, [])"
  by (auto simp add: submission_result_def)

lemma submission_result_failed:
  "Do (Client validator) req = Inl err \<Longrightarrow>
     submission_result validator ((False, Error err, None), [Do_call req])"
  by (simp add: submission_result_def)

lemma submission_result_answered:
  "Do (Client validator) req = Inr resp \<Longrightarrow>
     submission_result validator ((True, [], None), [Do_call req])"
  by (simp add: submission_result_def)

lemma ConfigFrom_returned:
  "(case secretValue of
      None \<Rightarrow> Inr plugin
    | Some ref \<Rightarrow>
        if length (Plugin_Config plugin) > 0 then
          Inl (False, ''plugin cannot use both Config and ConfigFrom'', None)
        else
          (case loaded ref of
             Inl err \<Rightarrow> Inl (False, ''could not load secret plugin configuration'', Some err)
           | Inr config \<Rightarrow> Inr (plugin'  config))) = Inl returned \<Longrightarrow>
   \<not> fst returned \<and> (snd (snd returned) = None \<longrightarrow> fst (snd returned) \<noteq> [])"
  by (auto split: option.splits if_splits sum.splits)

lemma ValidatePlugin_submission_result:
  "submission_result validator (ValidatePlugin ks validator k8sPlugin)"
  unfolding ValidatePlugin_def Let_def
  apply (intro submission_result_if submission_result_sum)
         apply (rule submission_result_returned; simp)
        apply (rule submission_result_returned; simp)
       apply (rule submission_result_returned; drule ConfigFrom_returned; simp)
      apply (rule submission_result_returned; simp)
     apply (erule submission_result_failed)
    apply (erule submission_result_answered)
   apply simp
  apply (erule submission_result_answered)
  done


lemma ValidatePlugin_sent:
  assumes "Do_call req \<in> set (snd (ValidatePlugin ks validator k8sPlugin))"
  shows "fst (ValidatePlugin ks validator k8sPlugin)
           = (case Do (Client validator) req of
                Inl e \<Rightarrow> (False, Error e, None)
              | Inr resp \<Rightarrow> (True, [], None))"
  using assms ValidatePlugin_submission_result [of validator ks k8sPlugin]
  by (auto simp add: submission_result_def)

lemma example_submission:
  "snd (ValidatePlugin example_kongstate (example_Validator lookup answer)
          (example_KongPlugin ''rate-limiting'' config None))
     = [Do_call (example_request config)]"
  by (simp add: ValidatePlugin_def example_kongstate_def example_Validator_def
        example_KongPlugin_def example_request_def new_Plugin_def Let_def split: sum.split)

text \<open>
  Claim C3, as amended. For every plugin validation request whose raw config decodes to a
  non-empty configuration and whose secret reference is set: when the plugin name is not
  empty, \<^verbatim>\<open>ValidatePlugin\<close> returns invalid with the reason
  "plugin cannot use both Config and ConfigFrom", a nil error, and sends nothing to Kong;
  when the plugin name is empty, the test of the name comes first and the reason is
  "plugin name cannot be empty", again with nothing sent.
\<close>

theorem ValidatePlugin_Config_and_ConfigFrom:
  "RawConfigToConfiguration ks (Config k8sPlugin) = Inr config \<Longrightarrow> length config > 0 \<Longrightarrow>
   ConfigFrom_SecretValue k8sPlugin \<noteq> None \<Longrightarrow>
     (PluginName k8sPlugin \<noteq> [] \<longrightarrow>
        ValidatePlugin ks validator k8sPlugin
          = ((False, ''plugin cannot use both Config and ConfigFrom'', None), []))
     \<and> (PluginName k8sPlugin = [] \<longrightarrow>
        ValidatePlugin ks validator k8sPlugin = ((False, ''plugin name cannot be empty'', None), []))"
  by (auto simp add: ValidatePlugin_def Let_def)


theorem ValidatePlugin_Config_and_ConfigFrom_witness:
  "RawConfigToConfiguration example_kongstate
       (Config (example_KongPlugin ''rate-limiting'' [(''minute'', ''5'')] (Some (''rate-secret'', ''config''))))
     = Inr [(''minute'', ''5'')]
   \<and> length [(''minute'', ''5'')] > 0
   \<and> ConfigFrom_SecretValue
        (example_KongPlugin ''rate-limiting'' [(''minute'', ''5'')] (Some (''rate-secret'', ''config'')))
       \<noteq> None
   \<and> ValidatePlugin example_kongstate (example_Validator (\<lambda>u. Inr None) (Inr \<lparr>StatusCode = 201\<rparr>))
        (example_KongPlugin ''rate-limiting'' [(''minute'', ''5'')] (Some (''rate-secret'', ''config'')))
       = ((False, ''plugin cannot use both Config and ConfigFrom'', None), [])
   \<and> ValidatePlugin example_kongstate (example_Validator (\<lambda>u. Inr None) (Inr \<lparr>StatusCode = 201\<rparr>))
        (example_KongPlugin [] [(''minute'', ''5'')] (Some (''rate-secret'', ''config'')))
       = ((False, ''plugin name cannot be empty'', None), [])"
  using ValidatePlugin_Config_and_ConfigFrom
          [of example_kongstate
              "example_KongPlugin ''rate-limiting'' [(''minute'', ''5'')] (Some (''rate-secret'', ''config''))"
              "[(''minute'', ''5'')]"
              "example_Validator (\<lambda>u. Inr None) (Inr \<lparr>StatusCode = 201\<rparr>)"]
        ValidatePlugin_Config_and_ConfigFrom
          [of example_kongstate
              "example_KongPlugin [] [(''minute'', ''5'')] (Some (''rate-secret'', ''config''))"
              "[(''minute'', ''5'')]"
              "example_Validator (\<lambda>u. Inr None) (Inr \<lparr>StatusCode = 201\<rparr>)"]
  by (simp add: example_kongstate_def example_KongPlugin_def)

text \<open>
  Claim C3 as stated fails on a request with an empty plugin name: both the raw config
  and the secret reference are non-empty, and the reason returned is not
  "plugin cannot use both Config and ConfigFrom".
\<close>

theorem ValidatePlugin_Config_and_ConfigFrom_counterexample:
  "RawConfigToConfiguration example_kongstate
       (Config (example_KongPlugin [] [(''minute'', ''5'')] (Some (''rate-secret'', ''config''))))
     = Inr [(''minute'', ''5'')]
   \<and> [(''minute'', ''5'')] \<noteq> ([] :: Configuration)
   \<and> ConfigFrom_SecretValue (example_KongPlugin [] [(''minute'', ''5'')] (Some (''rate-secret'', ''config'')))
       \<noteq> None
   \<and> fst (ValidatePlugin example_kongstate (example_Validator (\<lambda>u. Inr None) (Inr \<lparr>StatusCode = 201\<rparr>))
        (example_KongPlugin [] [(''minute'', ''5'')] (Some (''rate-secret'', ''config''))))
       \<noteq> (False, ''plugin cannot use both Config and ConfigFrom'', None)"
  by (simp add: ValidatePlugin_def example_kongstate_def example_KongPlugin_def)

text \<open>
  Claim C4. For every plugin validation request whose submission to Kong was sent and
  answered without a transport error, \<^verbatim>\<open>ValidatePlugin\<close> returns valid, an empty reason
  and a nil error, whatever the status code of the response, 201 or any other.
\<close>

theorem ValidatePlugin_completed_response:
  "Do_call req \<in> set (snd (ValidatePlugin ks validator k8sPlugin)) \<Longrightarrow>
   Do (Client validator) req = Inr resp \<Longrightarrow>
     fst (ValidatePlugin ks validator k8sPlugin) = (True, [], None)"
  by (simp add: ValidatePlugin_sent)

theorem ValidatePlugin_completed_response_witness:
  "Do_call (example_request [(''minute'', ''5'')])
     \<in> set (snd (ValidatePlugin example_kongstate (example_Validator (\<lambda>u. Inr None) (Inr \<lparr>StatusCode = 201\<rparr>))
                 (example_KongPlugin ''rate-limiting'' [(''minute'', ''5'')] None)))
   \<and> Do (Client (example_Validator (\<lambda>u. Inr None) (Inr \<lparr>StatusCode = 201\<rparr>)))
        (example_request [(''minute'', ''5'')]) = Inr \<lparr>StatusCode = 201\<rparr>
   \<and> fst (ValidatePlugin example_kongstate (example_Validator (\<lambda>u. Inr None) (Inr \<lparr>StatusCode = 201\<rparr>))
            (example_KongPlugin ''rate-limiting'' [(''minute'', ''5'')] None))
       = (True, [], None)
   \<and> Do_call (example_request [(''minute'', ''5'')])
     \<in> set (snd (ValidatePlugin example_kongstate (example_Validator (\<lambda>u. Inr None) (Inr \<lparr>StatusCode = 400\<rparr>))
                 (example_KongPlugin ''rate-limiting'' [(''minute'', ''5'')] None)))
   \<and> Do (Client (example_Validator (\<lambda>u. Inr None) (Inr \<lparr>StatusCode = 400\<rparr>)))
        (example_request [(''minute'', ''5'')]) = Inr \<lparr>StatusCode = 400\<rparr>
   \<and> fst (ValidatePlugin example_kongstate (example_Validator (\<lambda>u. Inr None) (Inr \<lparr>StatusCode = 400\<rparr>))
            (example_KongPlugin ''rate-limiting'' [(''minute'', ''5'')] None))
       = (True, [], None)"
proof -
  have sent: "Do_call (example_request [(''minute'', ''5'')])
     \<in> set (snd (ValidatePlugin example_kongstate (example_Validator (\<lambda>u. Inr None) answer)
                 (example_KongPlugin ''rate-limiting'' [(''minute'', ''5'')] None)))" for answer
    by (simp add: example_submission)
  have answered: "Do (Client (example_Validator (\<lambda>u. Inr None) answer))
        (example_request [(''minute'', ''5'')]) = answer" for answer
    by (simp add: example_Validator_def)
  show ?thesis
    using ValidatePlugin_completed_response [OF sent answered, of "\<lparr>StatusCode = 201\<rparr>"]
          ValidatePlugin_completed_response [OF sent answered, of "\<lparr>StatusCode = 400\<rparr>"]
          sent answered
    by simp
qed

text \<open>
  Claim C5. For every plugin validation request whose submission to Kong was sent and
  failed with a transport error, \<^verbatim>\<open>ValidatePlugin\<close> returns invalid, the text of the
  error as the reason, and a nil error. The consumer path differs: a lookup that fails
  with an error other than not-found makes \<^verbatim>\<open>ValidateConsumer\<close> return a non-nil error.
\<close>

theorem ValidatePlugin_transport_error:
  "(Do_call req \<in> set (snd (ValidatePlugin ks validator k8sPlugin))
        \<and> Do (Client validator) req = Inl e \<longrightarrow>
      fst (ValidatePlugin ks validator k8sPlugin) = (False, Error e, None))
   \<and> (Username consumer \<noteq> [] \<and> Consumers_Get (Client validator) (Username consumer) = Inl e'
        \<and> \<not> IsNotFoundErr e' \<longrightarrow>
      snd (snd (fst (ValidateConsumer validator consumer))) \<noteq> None)"
proof -
  have "fst (ValidatePlugin ks validator k8sPlugin) = (False, Error e, None)"
    if "Do_call req \<in> set (snd (ValidatePlugin ks validator k8sPlugin))"
      and "Do (Client validator) req = Inl e"
    using that by (simp add: ValidatePlugin_sent)
  moreover have "snd (snd (fst (ValidateConsumer validator consumer))) \<noteq> None"
    if "Username consumer \<noteq> []"
      and "Consumers_Get (Client validator) (Username consumer) = Inl e'"
      and "\<not> IsNotFoundErr e'"
    using that by (simp add: ValidateConsumer_def Let_def)
  ultimately show ?thesis by blast
qed

theorem ValidatePlugin_transport_error_witness:
  "Do_call (example_request [])
     \<in> set (snd (ValidatePlugin example_kongstate
                   (example_Validator (\<lambda>u. Inl (ErrorText ''connection refused''))
                      (Inl (ErrorText ''connection refused'')))
                   (example_KongPlugin ''rate-limiting'' [] None)))
   \<and> Do (Client (example_Validator (\<lambda>u. Inl (ErrorText ''connection refused''))
                      (Inl (ErrorText ''connection refused''))))
        (example_request []) = Inl (ErrorText ''connection refused'')
   \<and> fst (ValidatePlugin example_kongstate
            (example_Validator (\<lambda>u. Inl (ErrorText ''connection refused''))
               (Inl (ErrorText ''connection refused'')))
            (example_KongPlugin ''rate-limiting'' [] None))
       = (False, ''connection refused'', None)
   \<and> snd (snd (fst (ValidateConsumer
            (example_Validator (\<lambda>u. Inl (ErrorText ''connection refused''))
               (Inl (ErrorText ''connection refused'')))
            \<lparr>Username = ''alice''\<rparr>))) \<noteq> None"
proof -
  let ?v = "example_Validator (\<lambda>u. Inl (ErrorText ''connection refused''))
              (Inl (ErrorText ''connection refused''))"
  have sent: "Do_call (example_request [])
     \<in> set (snd (ValidatePlugin example_kongstate ?v (example_KongPlugin ''rate-limiting'' [] None)))"
    by (simp add: example_submission)
  have failed: "Do (Client ?v) (example_request []) = Inl (ErrorText ''connection refused'')"
    by (simp add: example_Validator_def)
  have lookup: "Username \<lparr>Username = ''alice''\<rparr> \<noteq> []
     \<and> Consumers_Get (Client ?v) (Username \<lparr>Username = ''alice''\<rparr>) = Inl (ErrorText ''connection refused'')
     \<and> \<not> IsNotFoundErr (ErrorText ''connection refused'')"
    by (simp add: example_Validator_def IsNotFoundErr_def)
  show ?thesis
    using ValidatePlugin_transport_error
            [of "example_request []" example_kongstate ?v "example_KongPlugin ''rate-limiting'' [] None"
                "ErrorText ''connection refused''" "\<lparr>Username = ''alice''\<rparr>"
                "ErrorText ''connection refused''"]
          sent failed lookup
    by simp
qed

section \<open>Properties of the credential validation\<close>

lemma range_fields_filter:
  "range_fields d required missingFields
     = missingFields @ filter (\<lambda>field. map_index d field = None) required"
  by (induction required arbitrary: missingFields) simp_all

lemma ValidateCredential_known:
  assumes "map_index (Data secret) ''kongCredType'' = Some credType"
    and "credTypeToFields credType = Some required"
  shows "ValidateCredential validator secret =
     (if \<forall>field \<in> set required. map_index (Data secret) field \<noteq> None then ((True, [], None), [])
      else ((False, ''missing required field(s): ''
                     @ Join (filter (\<lambda>field. map_index (Data secret) field = None) required) '', '',
             None), []))"
  using assms
  by (simp add: ValidateCredential_def range_fields_filter filter_empty_conv Let_def)

lemma ValidateCredential_presence:
  assumes "map_index (Data secret') ''kongCredType'' = map_index (Data secret) ''kongCredType''"
    and "\<forall>field. map_index (Data secret') field = None \<longleftrightarrow> map_index (Data secret) field = None"
  shows "ValidateCredential validator secret' = ValidateCredential validator secret"
proof -
  have "range_fields (Data secret') required [] = range_fields (Data secret) required []" for required
    using assms(2) by (simp add: range_fields_filter)
  with assms(1) show ?thesis
    by (simp add: ValidateCredential_def Let_def split: option.split)
qed

text \<open>
  Claim C7. For every secret whose \<^verbatim>\<open>kongCredType\<close> maps to a set of required fields:
  \<^verbatim>\<open>ValidateCredential\<close> returns valid, an empty reason and a nil error when every
  required field is a key of the data; otherwise it returns invalid, with a nil error and
  the reason "missing required field(s): " followed by the missing fields, and only them,
  in the order of the table, joined by ", ". Only the presence of a field counts: a second
  secret of the same type with the same keys gets the same answer, whatever its values.
\<close>

theorem ValidateCredential_required_fields:
  "map_index (Data secret) ''kongCredType'' = Some credType \<Longrightarrow>
   credTypeToFields credType = Some required \<Longrightarrow>
     ((\<forall>field \<in> set required. map_index (Data secret) field \<noteq> None) \<longrightarrow>
        fst (ValidateCredential validator secret) = (True, [], None))
     \<and> ((\<exists>field \<in> set required. map_index (Data secret) field = None) \<longrightarrow>
        fst (ValidateCredential validator secret)
          = (False,
             ''missing required field(s): ''
               @ Join (filter (\<lambda>field. map_index (Data secret) field = None) required) '', '',
             None))
     \<and> (map_index (Data secret') ''kongCredType'' = Some credType
          \<and> (\<forall>field. map_index (Data secret') field = None \<longleftrightarrow> map_index (Data secret) field = None)
        \<longrightarrow> ValidateCredential validator secret' = ValidateCredential validator secret)"
  using ValidateCredential_known [of secret credType required validator]
        ValidateCredential_presence [of secret' secret validator]
  by auto


theorem ValidateCredential_required_fields_witness:
  "map_index (Data (example_Secret [(''kongCredType'', ''basic-auth''), (''username'', ''alice'')]))
       ''kongCredType'' = Some ''basic-auth''
   \<and> credTypeToFields ''basic-auth'' = Some [''username'', ''password'']
   \<and> fst (ValidateCredential (example_Validator (\<lambda>u. Inr None) (Inr \<lparr>StatusCode = 201\<rparr>))
            (example_Secret [(''kongCredType'', ''basic-auth''), (''username'', ''alice'')]))
       = (False, ''missing required field(s): password'', None)
   \<and> fst (ValidateCredential (example_Validator (\<lambda>u. Inr None) (Inr \<lparr>StatusCode = 201\<rparr>))
            (example_Secret [(''kongCredType'', ''basic-auth'')]))
       = (False, ''missing required field(s): username, password'', None)
   \<and> fst (ValidateCredential (example_Validator (\<lambda>u. Inr None) (Inr \<lparr>StatusCode = 201\<rparr>))
            (example_Secret [(''kongCredType'', ''basic-auth''), (''password'', []), (''username'', [])]))
       = (True, [], None)
   \<and> ValidateCredential (example_Validator (\<lambda>u. Inr None) (Inr \<lparr>StatusCode = 201\<rparr>))
            (example_Secret [(''kongCredType'', ''basic-auth''), (''username'', ''bob'')])
       = ValidateCredential (example_Validator (\<lambda>u. Inr None) (Inr \<lparr>StatusCode = 201\<rparr>))
            (example_Secret [(''kongCredType'', ''basic-auth''), (''username'', ''alice'')])"
proof -
  let ?v = "example_Validator (\<lambda>u. Inr None) (Inr \<lparr>StatusCode = 201\<rparr>)"
  have fields: "credTypeToFields ''basic-auth'' = Some [''username'', ''password'']"
    by (simp add: credTypeToFields_def basicAuthFields_def)
  have marker: "map_index (Data (example_Secret ((''kongCredType'', ''basic-auth'') # entries)))
       ''kongCredType'' = Some ''basic-auth''" for entries
    by (simp add: example_Secret_def map_index_def)
  show ?thesis
    using ValidateCredential_required_fields
            [OF marker fields, of "[(''username'', ''alice'')]" ?v
               "example_Secret [(''kongCredType'', ''basic-auth''), (''username'', ''bob'')]"]
          ValidateCredential_required_fields
            [OF marker fields, of "[]" ?v "example_Secret []"]
          ValidateCredential_required_fields
            [OF marker fields, of "[(''password'', []), (''username'', [])]" ?v "example_Secret []"]
          marker [of "[(''username'', ''alice'')]"] fields
    by (simp add: example_Secret_def map_index_def)
qed

lemma dom_credTypeToFields:
  "dom credTypeToFields
     = {''key-auth'', ''keyauth_credential'', ''basic-auth'', ''basicauth_credential'',
        ''hmac-auth'', ''hmacauth_credential'', ''jwt'', ''jwt_secret'', ''oauth2'', ''acl'',
        ''mtls-auth''}"
  unfolding credTypeToFields_def dom_map_of_conv_image_fst by simp

lemma credTypeToFields_values:
  "credTypeToFields ''key-auth'' = Some [''key'']"
  "credTypeToFields ''keyauth_credential'' = Some [''key'']"
  "credTypeToFields ''basic-auth'' = Some [''username'', ''password'']"
  "credTypeToFields ''basicauth_credential'' = Some [''username'', ''password'']"
  "credTypeToFields ''hmac-auth'' = Some [''username'', ''secret'']"
  "credTypeToFields ''hmacauth_credential'' = Some [''username'', ''secret'']"
  "credTypeToFields ''jwt'' = Some [''algorithm'', ''rsa_public_key'', ''key'', ''secret'']"
  "credTypeToFields ''jwt_secret'' = Some [''algorithm'', ''rsa_public_key'', ''key'', ''secret'']"
  "credTypeToFields ''oauth2'' = Some [''name'', ''client_id'', ''client_secret'', ''redirect_uris'']"
  "credTypeToFields ''acl'' = Some [''group'']"
  "credTypeToFields ''mtls-auth'' = Some [''subject_name'']"
  by (simp_all add: credTypeToFields_def keyAuthFields_def basicAuthFields_def hmacAuthFields_def
        jwtAuthFields_def mtlsAuthFields_def)

lemma ValidateCredential_unknown:
  "map_index (Data secret) ''kongCredType'' = Some credType \<Longrightarrow>
   credType \<notin> dom credTypeToFields \<Longrightarrow>
     fst (ValidateCredential validator secret) = (False, ''invalid credential type: '' @ credType, None)"
  by (simp add: ValidateCredential_def domIff)


text \<open>
  Claim C8. The table \<^verbatim>\<open>credTypeToFields\<close> has exactly the eleven keys below, compared
  byte by byte, each with the required fields below, in this order. For a secret whose
  \<^verbatim>\<open>kongCredType\<close> is any other string, \<^verbatim>\<open>ValidateCredential\<close> returns invalid with a nil
  error and the reason "invalid credential type: " followed by that string.
\<close>

theorem credTypeToFields_matrix:
  "dom credTypeToFields
     = {''key-auth'', ''keyauth_credential'', ''basic-auth'', ''basicauth_credential'',
        ''hmac-auth'', ''hmacauth_credential'', ''jwt'', ''jwt_secret'', ''oauth2'', ''acl'',
        ''mtls-auth''}
   \<and> credTypeToFields ''key-auth'' = Some [''key'']
   \<and> credTypeToFields ''keyauth_credential'' = Some [''key'']
   \<and> credTypeToFields ''basic-auth'' = Some [''username'', ''password'']
   \<and> credTypeToFields ''basicauth_credential'' = Some [''username'', ''password'']
   \<and> credTypeToFields ''hmac-auth'' = Some [''username'', ''secret'']
   \<and> credTypeToFields ''hmacauth_credential'' = Some [''username'', ''secret'']
   \<and> credTypeToFields ''jwt'' = Some [''algorithm'', ''rsa_public_key'', ''key'', ''secret'']
   \<and> credTypeToFields ''jwt_secret'' = Some [''algorithm'', ''rsa_public_key'', ''key'', ''secret'']
   \<and> credTypeToFields ''oauth2'' = Some [''name'', ''client_id'', ''client_secret'', ''redirect_uris'']
   \<and> credTypeToFields ''acl'' = Some [''group'']
   \<and> credTypeToFields ''mtls-auth'' = Some [''subject_name'']
   \<and> (map_index (Data secret) ''kongCredType'' = Some credType
        \<and> credType \<notin> dom credTypeToFields \<longrightarrow>
      fst (ValidateCredential validator secret)
        = (False, ''invalid credential type: '' @ credType, None))"
  by (intro conjI impI dom_credTypeToFields credTypeToFields_values)
     (erule conjE, erule (1) ValidateCredential_unknown)

theorem credTypeToFields_matrix_witness:
  "map_index (Data (example_Secret [(''kongCredType'', ''Key-Auth''), (''key'', ''secret'')]))
       ''kongCredType'' = Some ''Key-Auth''
   \<and> ''Key-Auth'' \<notin> dom credTypeToFields
   \<and> fst (ValidateCredential (example_Validator (\<lambda>u. Inr None) (Inr \<lparr>StatusCode = 201\<rparr>))
            (example_Secret [(''kongCredType'', ''Key-Auth''), (''key'', ''secret'')]))
       = (False, ''invalid credential type: Key-Auth'', None)"
proof -
  let ?s = "example_Secret [(''kongCredType'', ''Key-Auth''), (''key'', ''secret'')]"
  let ?v = "example_Validator (\<lambda>u. Inr None) (Inr \<lparr>StatusCode = 201\<rparr>)"
  note matrix = credTypeToFields_matrix [of ?s "''Key-Auth''" ?v]
  have marker: "map_index (Data ?s) ''kongCredType'' = Some ''Key-Auth''"
    by (simp add: example_Secret_def map_index_def)
  have unknown: "''Key-Auth'' \<notin> dom credTypeToFields"
    unfolding conjunct1 [OF matrix] by simp
  have "map_index (Data ?s) ''kongCredType'' = Some ''Key-Auth''
        \<and> ''Key-Auth'' \<notin> dom credTypeToFields \<longrightarrow>
      fst (ValidateCredential ?v ?s) = (False, ''invalid credential type: '' @ ''Key-Auth'', None)"
    using matrix by (elim conjE)
  with marker unknown show ?thesis by simp
qed

text \<open>
  Claim C10. For every secret, \<^verbatim>\<open>ValidateCredential\<close> returns a nil error and sends
  nothing to Kong; its result is a function of \<^verbatim>\<open>secret.Data\<close> alone, the same for any
  other validator and any other secret with the same data; and a secret without the key
  \<^verbatim>\<open>kongCredType\<close> is valid, with an empty reason.
\<close>

theorem ValidateCredential_pure:
  "snd (snd (fst (ValidateCredential validator secret))) = None
   \<and> snd (ValidateCredential validator secret) = []
   \<and> (Data secret' = Data secret \<longrightarrow>
        ValidateCredential validator' secret' = ValidateCredential validator secret)
   \<and> (map_index (Data secret) ''kongCredType'' = None \<longrightarrow>
        ValidateCredential validator secret = ((True, [], None), []))"
  by (simp add: ValidateCredential_def Let_def split: option.split)

theorem ValidateCredential_pure_witness:
  "Data ((example_Secret [(''username'', ''alice'')])\<lparr>SecretName := ''other''\<rparr>)
     = Data (example_Secret [(''username'', ''alice'')])
   \<and> ValidateCredential (example_Validator (\<lambda>u. Inl (ErrorText ''connection refused''))
                           (Inl (ErrorText ''connection refused'')))
        ((example_Secret [(''username'', ''alice'')])\<lparr>SecretName := ''other''\<rparr>)
     = ValidateCredential (example_Validator (\<lambda>u. Inr None) (Inr \<lparr>StatusCode = 201\<rparr>))
        (example_Secret [(''username'', ''alice'')])
   \<and> map_index (Data (example_Secret [(''username'', ''alice'')])) ''kongCredType'' = None
   \<and> ValidateCredential (example_Validator (\<lambda>u. Inr None) (Inr \<lparr>StatusCode = 201\<rparr>))
        (example_Secret [(''username'', ''alice'')])
     = ((True, [], None), [])"
  using ValidateCredential_pure
          [of "example_Validator (\<lambda>u. Inr None) (Inr \<lparr>StatusCode = 201\<rparr>)"
              "example_Secret [(''username'', ''alice'')]"
              "(example_Secret [(''username'', ''alice'')])\<lparr>SecretName := ''other''\<rparr>"
              "example_Validator (\<lambda>u. Inl (ErrorText ''connection refused''))
                 (Inl (ErrorText ''connection refused''))"]
  by (simp add: example_Secret_def map_index_def)

section \<open>The result invariant of the three operations\<close>




end
